theory Spec2Isabelle
  imports Complex_Main "HOL-Library.Sublist" "HOL-Library.Multiset"
begin

section \<open>Bake by Energy Price: the script \<^verbatim>\<open>Streamlit/app.py\<close>\<close>

text \<open>
  The script loads a table of hourly wholesale prices, selects the rows of one market on one
  calendar date, converts them to EUR/kWh and derives a recommendation, a percent difference
  and two ranked tables. Each script variable that a property below talks about is a
  definition of the same name, with the variables it reads as arguments.

  Conventions of the embedding:
  \<^item> a float64 price is a real number and the arithmetic on it is exact; a missing
    price (NaN) is \<open>None\<close>. The literals \<^verbatim>\<open>0.33\<close> and \<^verbatim>\<open>0.66\<close> are 33/100 and 66/100;
  \<^item> a pandas timestamp is its number of nanoseconds since the epoch; an unparseable
    timestamp (NaT) is \<open>None\<close>;
  \<^item> the pandas operations the script calls (\<^verbatim>\<open>dropna\<close>, \<^verbatim>\<open>sort_values\<close>, \<^verbatim>\<open>sort_index\<close>,
    \<^verbatim>\<open>normalize\<close>, \<^verbatim>\<open>tail\<close>, \<^verbatim>\<open>mean\<close>, \<^verbatim>\<open>quantile\<close>, \<^verbatim>\<open>nsmallest\<close>, \<^verbatim>\<open>nlargest\<close>) are
    written out as list functions following the library's documented behaviour;
    \<^verbatim>\<open>pd.to_datetime\<close> is a parameter;
  \<^item> an exception, and the pair \<^verbatim>\<open>st.error\<close>/\<^verbatim>\<open>st.stop\<close>, is a value \<open>Inl e\<close>.
\<close>

subsection \<open>Data\<close>

type_synonym timestamp = int

datatype exn = KeyError | EmptySliceError | IndexError | ZeroDivisionError

text \<open>
  A row of the loaded file: the \<^verbatim>\<open>date_cet\<close> cell and the cells of the market columns,
  by column name. The type of the \<^verbatim>\<open>date_cet\<close> cell changes along \<^verbatim>\<open>load_data\<close>: text as
  read, an optional timestamp after \<^verbatim>\<open>to_datetime\<close>, a timestamp after \<^verbatim>\<open>dropna\<close>.
\<close>

record 'd row =
  date_cet :: 'd
  cells :: "string \<rightharpoonup> real"

text \<open>
  A data frame: the names of its market columns (every column but \<^verbatim>\<open>date_cet\<close>, which
  line 37 makes the index) and its rows in order.
\<close>

record 'd frame =
  columns :: "string list"
  rows :: "'d row list"

text \<open>A row of \<^verbatim>\<open>today\<close>: the index (the timestamp) and the selected market's column.\<close>

record day_row =
  idx :: timestamp
  price_mwh :: real

text \<open>A row of \<^verbatim>\<open>today\<close> once line 70 has added the column \<^verbatim>\<open>price_kwh\<close>.\<close>

record kwh_row = day_row +
  price_kwh :: real

subsection \<open>Library operations\<close>

definition ns_per_day :: int where
  "ns_per_day = 86400000000000"

text \<open>\<^verbatim>\<open>DatetimeIndex.normalize\<close>: the timestamp's midnight.\<close>

definition normalize_ts :: "timestamp \<Rightarrow> timestamp" where
  "normalize_ts t = t - t mod ns_per_day"

text \<open>\<^verbatim>\<open>tail(n)\<close>: the last \<open>n\<close> rows.\<close>

definition tail :: "nat \<Rightarrow> 'a list \<Rightarrow> 'a list" where
  "tail n xs = drop (length xs - n) xs"

text \<open>
  \<^verbatim>\<open>Series.mean\<close>: sum over count. (On an empty series pandas gives NaN; the script stops on
  an empty \<^verbatim>\<open>today\<close> before it takes a mean.)
\<close>

definition mean :: "real list \<Rightarrow> real" where
  "mean xs = sum_list xs / of_nat (length xs)"

text \<open>
  \<^verbatim>\<open>Series.quantile(q)\<close> with the default \<^verbatim>\<open>interpolation='linear'\<close>: on the sorted values,
  the virtual index \<open>q * (n - 1)\<close> lies between two neighbouring ranks, and the result
  interpolates linearly between the values there. (Defined for a non-empty series; on an
  empty one pandas gives NaN, which the script never reaches.)
\<close>

definition quantile :: "real list \<Rightarrow> real \<Rightarrow> real" where
  "quantile xs q =
     (let s = sort xs;
          n = length s;
          virtual_index = q * of_nat (n - 1);
          previous = nat \<lfloor>virtual_index\<rfloor>;
          next = min (previous + 1) (n - 1);
          gamma = virtual_index - of_nat previous
      in s ! previous + (s ! next - s ! previous) * gamma)"

text \<open>
  \<^verbatim>\<open>DataFrame.nsmallest(n, column)\<close> and \<^verbatim>\<open>nlargest\<close> with the default \<^verbatim>\<open>keep='first'\<close>: the
  first \<open>n\<close> rows in ascending (descending) order of the column; pandas orders the selected
  rows with a stable sort of the values (of the negated values for \<^verbatim>\<open>nlargest\<close>).
\<close>

definition nsmallest :: "nat \<Rightarrow> ('a \<Rightarrow> real) \<Rightarrow> 'a list \<Rightarrow> 'a list" where
  "nsmallest n column xs = take n (sort_key column xs)"

definition nlargest :: "nat \<Rightarrow> ('a \<Rightarrow> real) \<Rightarrow> 'a list \<Rightarrow> 'a list" where
  "nlargest n column xs = take n (sort_key (\<lambda>r. - column r) xs)"

subsection \<open>Loading (lines 26 to 37)\<close>

text \<open>
  \<^verbatim>\<open>load_data\<close>: parse the \<^verbatim>\<open>date_cet\<close> column with \<^verbatim>\<open>errors="coerce"\<close> (a text that does not
  parse becomes NaT), drop the rows whose \<^verbatim>\<open>date_cet\<close> is NaT, sort by \<^verbatim>\<open>date_cet\<close>.
  pandas does not fix the order of rows with equal keys under its default sort; the model
  sorts stably and no property below depends on that order.
\<close>

definition coerce_dates :: "(string \<Rightarrow> timestamp option) \<Rightarrow> string row list \<Rightarrow> timestamp option row list" where
  "coerce_dates to_datetime rs =
     map (\<lambda>r. \<lparr>date_cet = to_datetime (date_cet r), cells = cells r\<rparr>) rs"

definition dropna_date :: "timestamp option row list \<Rightarrow> timestamp row list" where
  "dropna_date rs =
     List.map_filter
       (\<lambda>r. case date_cet r of None \<Rightarrow> None
             | Some t \<Rightarrow> Some \<lparr>date_cet = t, cells = cells r\<rparr>) rs"

definition load_data :: "(string \<Rightarrow> timestamp option) \<Rightarrow> string frame \<Rightarrow> timestamp frame" where
  "load_data to_datetime df =
     \<lparr>columns = columns df,
      rows = sort_key date_cet (dropna_date (coerce_dates to_datetime (rows df)))\<rparr>"

text \<open>\<^verbatim>\<open>gold_ts = gold_df.set_index("date_cet").sort_index()\<close>\<close>

definition gold_ts :: "timestamp frame \<Rightarrow> timestamp frame" where
  "gold_ts gold_df = \<lparr>columns = columns gold_df, rows = sort_key date_cet (rows gold_df)\<rparr>"

subsection \<open>The day's slice (lines 60 to 70)\<close>

text \<open>
  Line 60: the rows whose timestamp normalizes to the selected date, the selected market's
  column alone, without the rows whose price is missing. Selecting a column the frame does
  not have raises \<^verbatim>\<open>KeyError\<close>.
\<close>

definition today :: "timestamp frame \<Rightarrow> string \<Rightarrow> timestamp \<Rightarrow> exn + day_row list" where
  "today ts country selected_date =
     (if country \<notin> set (columns ts) then Inl KeyError
      else Inr (List.map_filter
                  (\<lambda>r. case cells r country of None \<Rightarrow> None
                        | Some p \<Rightarrow> Some \<lparr>idx = date_cet r, price_mwh = p\<rparr>)
                  (filter (\<lambda>r. normalize_ts (date_cet r) = selected_date) (rows ts))))"

text \<open>Lines 62 to 64: an empty slice ends the run with an error message.\<close>

definition today_or_stop :: "timestamp frame \<Rightarrow> string \<Rightarrow> timestamp \<Rightarrow> exn + day_row list" where
  "today_or_stop ts country selected_date =
     (case today ts country selected_date of
        Inl e \<Rightarrow> Inl e
      | Inr t \<Rightarrow> if t = [] then Inl EmptySliceError else Inr t)"

text \<open>Line 70: \<^verbatim>\<open>today["price_kwh"] = today[country] / 1000\<close>\<close>

definition with_price_kwh :: "day_row list \<Rightarrow> kwh_row list" where
  "with_price_kwh t =
     map (\<lambda>r. \<lparr>idx = idx r, price_mwh = price_mwh r, price_kwh = price_mwh r / 1000\<rparr>) t"

subsection \<open>Derived values (lines 73 to 112)\<close>

definition current_row :: "kwh_row list \<Rightarrow> kwh_row list" where
  "current_row t = tail 1 t"

text \<open>\<^verbatim>\<open>.iloc[0]\<close> raises \<^verbatim>\<open>IndexError\<close> on an empty selection.\<close>

definition current_price_kwh :: "kwh_row list \<Rightarrow> exn + real" where
  "current_price_kwh t =
     (case current_row t of [] \<Rightarrow> Inl IndexError | r # _ \<Rightarrow> Inr (price_kwh r))"

definition daily_avg_kwh :: "kwh_row list \<Rightarrow> real" where
  "daily_avg_kwh t = mean (map price_kwh t)"

definition low_thr :: "kwh_row list \<Rightarrow> real" where
  "low_thr t = quantile (map price_kwh t) (33 / 100)"

definition high_thr :: "kwh_row list \<Rightarrow> real" where
  "high_thr t = quantile (map price_kwh t) (66 / 100)"

text \<open>
  \<^verbatim>\<open>bake_reco\<close> reads the two thresholds from the enclosing scope; here they are its first
  two arguments. It returns the title and the name of the message style. (The titles are
  given without their leading pictograph.)
\<close>

definition bake_reco :: "real \<Rightarrow> real \<Rightarrow> real \<Rightarrow> string \<times> string" where
  "bake_reco low high price =
     (if price \<le> low then (''APPLE PIE TIME'', ''success'')
      else if price \<ge> high then (''CHEESECAKE TIME'', ''error'')
      else (''FLEXIBLE BAKING HOUR'', ''info''))"

text \<open>
  Line 112, on two Python floats: the division raises \<^verbatim>\<open>ZeroDivisionError\<close> when the
  average is zero.
\<close>

definition pct_vs_avg :: "real \<Rightarrow> real \<Rightarrow> exn + real" where
  "pct_vs_avg current avg =
     (if avg = 0 then Inl ZeroDivisionError
      else Inr (((current - avg) / avg) * 100))"

subsection \<open>Ranked tables (lines 159 and 160)\<close>

definition cheapest :: "nat \<Rightarrow> kwh_row list \<Rightarrow> kwh_row list" where
  "cheapest best_n t = nsmallest best_n price_kwh t"

definition priciest :: "nat \<Rightarrow> kwh_row list \<Rightarrow> kwh_row list" where
  "priciest best_n t = nlargest best_n price_kwh t"

subsection \<open>Auxiliary definitions for the properties\<close>

text \<open>
  The interpolation step of \<open>quantile\<close> on values that are already sorted, at a given
  virtual index; \<open>quantile xs q\<close> is \<open>lerp_at (sort xs) (q * (length xs - 1))\<close>.
\<close>

definition lerp_at :: "real list \<Rightarrow> real \<Rightarrow> real" where
  "lerp_at s v =
     s ! nat \<lfloor>v\<rfloor> +
     (s ! min (nat \<lfloor>v\<rfloor> + 1) (length s - 1) - s ! nat \<lfloor>v\<rfloor>) * (v - of_nat (nat \<lfloor>v\<rfloor>))"

text \<open>
  The specification's description of a slice, in its own words: the rows of the table on
  the selected calendar date whose price for the selected market is present.
\<close>

definition valid_rows :: "timestamp frame \<Rightarrow> string \<Rightarrow> timestamp \<Rightarrow> timestamp row list" where
  "valid_rows ts country selected_date =
     filter (\<lambda>r. normalize_ts (date_cet r) = selected_date \<and> cells r country \<noteq> None) (rows ts)"

text \<open>
  Example inputs. The parser on the texts the examples use: midnight and one o'clock of
  2024-01-01 and midnight of 2024-01-02, in nanoseconds since the epoch; no other text
  parses.
\<close>

definition example_to_datetime :: "string \<Rightarrow> timestamp option" where
  "example_to_datetime s =
     (if s = ''2024-01-01 00:00:00'' then Some 1704067200000000000
      else if s = ''2024-01-01 01:00:00'' then Some 1704070800000000000
      else if s = ''2024-01-02 00:00:00'' then Some 1704153600000000000
      else None)"

text \<open>
  A file of four rows, out of order: two hours of 2024-01-01 with a price, a row whose
  timestamp does not parse, and an hour of 2024-01-02 whose price is missing.
\<close>

definition example_frame :: "string frame" where
  "example_frame =
     \<lparr>columns = [''netherlands_nl''],
      rows = [\<lparr>date_cet = ''2024-01-01 01:00:00'', cells = [''netherlands_nl'' \<mapsto> 45 / 2]\<rparr>,
              \<lparr>date_cet = ''2024-01-01 00:00:00'', cells = [''netherlands_nl'' \<mapsto> 20]\<rparr>,
              \<lparr>date_cet = ''not a date'', cells = [''netherlands_nl'' \<mapsto> 30]\<rparr>,
              \<lparr>date_cet = ''2024-01-02 00:00:00'', cells = Map.empty\<rparr>]\<rparr>"

text \<open>A day of five hours priced 0, 1000, 1000, 1000 and 2000 EUR/MWh.\<close>

definition uneven_day :: "day_row list" where
  "uneven_day =
     [\<lparr>idx = 1704067200000000000, price_mwh = 0\<rparr>,
      \<lparr>idx = 1704070800000000000, price_mwh = 1000\<rparr>,
      \<lparr>idx = 1704074400000000000, price_mwh = 1000\<rparr>,
      \<lparr>idx = 1704078000000000000, price_mwh = 1000\<rparr>,
      \<lparr>idx = 1704081600000000000, price_mwh = 2000\<rparr>]"

text \<open>A day of two hours, both priced 50 EUR/MWh.\<close>

definition flat_day :: "day_row list" where
  "flat_day =
     [\<lparr>idx = 1704067200000000000, price_mwh = 50\<rparr>,
      \<lparr>idx = 1704070800000000000, price_mwh = 50\<rparr>]"

section \<open>The recommendation\<close>

text \<open>
  C1. \<open>bake_reco\<close> takes the first branch that matches: a price at or below the low
  threshold is APPLE PIE TIME (style success); otherwise a price at or above the high
  threshold is CHEESECAKE TIME (style error); otherwise FLEXIBLE BAKING HOUR (style info).
  In particular, when both thresholds are equal, a price equal to them is APPLE PIE TIME.
\<close>

theorem bake_reco_first_match:
  "(price \<le> low \<longrightarrow> bake_reco low high price = (''APPLE PIE TIME'', ''success'')) \<and>
   (\<not> price \<le> low \<and> price \<ge> high \<longrightarrow>
      bake_reco low high price = (''CHEESECAKE TIME'', ''error'')) \<and>
   (\<not> price \<le> low \<and> \<not> price \<ge> high \<longrightarrow>
      bake_reco low high price = (''FLEXIBLE BAKING HOUR'', ''info'')) \<and>
   bake_reco price price price = (''APPLE PIE TIME'', ''success'')"
  by (simp add: bake_reco_def)

theorem bake_reco_first_match_witness:
  "(1::real) \<le> 1 \<and> bake_reco 1 2 1 = (''APPLE PIE TIME'', ''success'') \<and>
   \<not> (2::real) \<le> 1 \<and> (2::real) \<ge> 2 \<and> bake_reco 1 2 2 = (''CHEESECAKE TIME'', ''error'') \<and>
   \<not> (3 / 2 :: real) \<le> 1 \<and> \<not> (3 / 2 :: real) \<ge> 2 \<and>
   bake_reco 1 2 (3 / 2) = (''FLEXIBLE BAKING HOUR'', ''info'')"
  using bake_reco_first_match [of 1 1 2] bake_reco_first_match [of 2 1 2]
    bake_reco_first_match [of "3 / 2" 1 2]
  by simp

text \<open>
  C2, as amended. A price equal to the low threshold is APPLE PIE TIME. A price equal to the
  high threshold is CHEESECAKE TIME when the low threshold is below the high one. When the
  two thresholds are equal, a price equal to both is APPLE PIE TIME: the first branch
  wins, so the favourable class takes precedence there.
\<close>

theorem bake_reco_boundaries:
  "bake_reco low high low = (''APPLE PIE TIME'', ''success'') \<and>
   (low < high \<longrightarrow> bake_reco low high high = (''CHEESECAKE TIME'', ''error'')) \<and>
   bake_reco high high high = (''APPLE PIE TIME'', ''success'')"
  by (simp add: bake_reco_def)

theorem bake_reco_boundaries_witness:
  "(1::real) < 2 \<and> bake_reco 1 2 1 = (''APPLE PIE TIME'', ''success'') \<and>
   bake_reco 1 2 2 = (''CHEESECAKE TIME'', ''error'') \<and>
   bake_reco 2 2 2 = (''APPLE PIE TIME'', ''success'')"
  using bake_reco_boundaries [of 1 2] by simp

text \<open>
  C2 as stated fails where the thresholds coincide: with both thresholds and the price at
  1, the result is APPLE PIE TIME and not CHEESECAKE TIME.
\<close>

theorem bake_reco_flat_boundary_counterexample:
  "bake_reco 1 1 1 = (''APPLE PIE TIME'', ''success'') \<and>
   bake_reco 1 1 1 \<noteq> (''CHEESECAKE TIME'', ''error'')"
  by (simp add: bake_reco_def)

section \<open>The percent difference\<close>

text \<open>
  C7. For an average other than zero, \<open>pct_vs_avg\<close> is
  \<open>(current - avg) / avg * 100\<close>; for an average of zero the division has no value and
  the script ends with \<^verbatim>\<open>ZeroDivisionError\<close> (the source has no check of its own).
\<close>

theorem pct_vs_avg_division:
  "(avg \<noteq> 0 \<longrightarrow> pct_vs_avg current avg = Inr ((current - avg) / avg * 100)) \<and>
   pct_vs_avg current 0 = Inl ZeroDivisionError"
  by (simp add: pct_vs_avg_def)

theorem pct_vs_avg_division_witness:
  "(2::real) \<noteq> 0 \<and> pct_vs_avg 3 2 = Inr 50 \<and> pct_vs_avg 3 0 = Inl ZeroDivisionError"
  using pct_vs_avg_division [of 2 3] by simp

section \<open>The conversion to EUR/kWh\<close>

text \<open>
  C8. Line 70 keeps every row, gives each the price per kWh that is its price per MWh
  divided by 1000, and leaves the timestamp and the price per MWh as they were; it has no
  error case.
\<close>

theorem with_price_kwh_pointwise:
  "length (with_price_kwh t) = length t \<and>
   map price_kwh (with_price_kwh t) = map (\<lambda>r. price_mwh r / 1000) t \<and>
   map day_row.truncate (with_price_kwh t) = t"
  by (simp add: with_price_kwh_def day_row.truncate_def comp_def map_idI)

section \<open>The thresholds\<close>

lemma quantile_lerp_at: "quantile xs q = lerp_at (sort xs) (q * of_nat (length xs - 1))"
  by (simp add: quantile_def lerp_at_def Let_def)

lemma floor_index_bound:
  assumes "0 \<le> (v::real)" "v \<le> of_nat m"
  shows "nat \<lfloor>v\<rfloor> \<le> m"
proof -
  have "\<lfloor>v\<rfloor> \<le> \<lfloor>(of_nat m)::real\<rfloor>" using assms(2) by (rule floor_mono)
  then show ?thesis by simp
qed

lemma frac_part_bounds:
  assumes "0 \<le> (v::real)"
  shows "0 \<le> v - of_nat (nat \<lfloor>v\<rfloor>)" and "v - of_nat (nat \<lfloor>v\<rfloor>) < 1"
proof -
  have "0 \<le> \<lfloor>v\<rfloor>" using assms by simp
  then have eq: "real (nat \<lfloor>v\<rfloor>) = of_int \<lfloor>v\<rfloor>" by simp
  show "0 \<le> v - of_nat (nat \<lfloor>v\<rfloor>)" unfolding eq by simp
  show "v - of_nat (nat \<lfloor>v\<rfloor>) < 1" unfolding eq by linarith
qed

text \<open>The interpolated value lies between the values at the two ranks.\<close>

lemma lerp_at_bounds:
  assumes s: "sorted s" and ne: "s \<noteq> []" and v0: "0 \<le> v" and v1: "v \<le> of_nat (length s - 1)"
  shows "s ! nat \<lfloor>v\<rfloor> \<le> lerp_at s v"
    and "lerp_at s v \<le> s ! min (nat \<lfloor>v\<rfloor> + 1) (length s - 1)"
proof -
  let ?i = "nat \<lfloor>v\<rfloor>" and ?g = "v - of_nat (nat \<lfloor>v\<rfloor>)"
  let ?j = "min (?i + 1) (length s - 1)"
  have i: "?i \<le> length s - 1" using v0 v1 by (rule floor_index_bound)
  have j: "?j < length s" using ne by (cases s) (simp_all add: min_def)
  have ij: "?i \<le> ?j" using i by simp
  have ab: "s ! ?i \<le> s ! ?j" using s ij j by (rule sorted_nth_mono)
  have g0: "0 \<le> ?g" and g1: "?g < 1" using v0 by (rule frac_part_bounds)+
  have "0 \<le> (s ! ?j - s ! ?i) * ?g" using ab g0 by simp
  then show "s ! ?i \<le> lerp_at s v" by (simp add: lerp_at_def)
  have "(s ! ?j - s ! ?i) * ?g \<le> (s ! ?j - s ! ?i) * 1"
    using ab g1 by (intro mult_left_mono) simp_all
  then show "lerp_at s v \<le> s ! ?j" by (simp add: lerp_at_def)
qed

text \<open>
  On sorted values the interpolation grows with the virtual index: within one pair of
  ranks because the fraction grows, across pairs by the bounds above.
\<close>

lemma lerp_at_mono:
  assumes s: "sorted s" and ne: "s \<noteq> []"
    and v0: "0 \<le> v" and vw: "v \<le> w" and w1: "w \<le> of_nat (length s - 1)"
  shows "lerp_at s v \<le> lerp_at s w"
proof -
  let ?i = "nat \<lfloor>v\<rfloor>" and ?k = "nat \<lfloor>w\<rfloor>"
  have w0: "0 \<le> w" using v0 vw by simp
  have v1: "v \<le> of_nat (length s - 1)" using vw w1 by simp
  have ik: "?i \<le> ?k" using vw by (simp add: floor_mono nat_mono)
  have k: "?k \<le> length s - 1" using w0 w1 by (rule floor_index_bound)
  show ?thesis
  proof (cases "?i = ?k")
    case True
    let ?j = "min (?i + 1) (length s - 1)"
    have j: "?j < length s" using ne by (cases s) (simp_all add: min_def)
    have "?i \<le> ?j" using k True by simp
    then have ab: "s ! ?i \<le> s ! ?j" using s j by (intro sorted_nth_mono)
    have "(s ! ?j - s ! ?i) * (v - of_nat ?i) \<le> (s ! ?j - s ! ?i) * (w - of_nat ?i)"
      using ab vw by (intro mult_left_mono) simp_all
    then show ?thesis using True by (simp add: lerp_at_def)
  next
    case False
    then have lt: "?i + 1 \<le> ?k" using ik by simp
    let ?j = "min (?i + 1) (length s - 1)"
    have "?j \<le> ?k" using lt by simp
    moreover have "?k < length s" using k ne by (cases s) simp_all
    ultimately have "s ! ?j \<le> s ! ?k" using s by (intro sorted_nth_mono)
    moreover have "lerp_at s v \<le> s ! ?j" using s ne v0 v1 by (rule lerp_at_bounds)
    moreover have "s ! ?k \<le> lerp_at s w" using s ne w0 w1 by (rule lerp_at_bounds)
    ultimately show ?thesis by linarith
  qed
qed

lemma quantile_mono:
  assumes "xs \<noteq> []" "0 \<le> p" "p \<le> q" "q \<le> 1"
  shows "quantile xs p \<le> quantile xs q"
proof -
  have "sorted (sort xs)" by simp
  moreover have "sort xs \<noteq> []" using assms(1) by (metis length_sort length_0_conv)
  moreover have "0 \<le> p * of_nat (length xs - 1)" using assms(2) by simp
  moreover have "p * of_nat (length xs - 1) \<le> q * of_nat (length xs - 1)"
    using assms(3) by (simp add: mult_right_mono)
  moreover have "q * of_nat (length xs - 1) \<le> of_nat (length (sort xs) - 1)"
    using assms(4) mult_right_mono [of q 1 "of_nat (length xs - 1)"] by simp
  ultimately show ?thesis unfolding quantile_lerp_at by (rule lerp_at_mono)
qed

lemma lerp_at_const:
  assumes ne: "s \<noteq> []" and c: "\<forall>x \<in> set s. x = c"
    and v0: "0 \<le> v" and v1: "v \<le> of_nat (length s - 1)"
  shows "lerp_at s v = c"
proof -
  let ?i = "nat \<lfloor>v\<rfloor>"
  let ?j = "min (?i + 1) (length s - 1)"
  have "?i \<le> length s - 1" using v0 v1 by (rule floor_index_bound)
  then have i: "?i < length s" using ne by (cases s) simp_all
  have j: "?j < length s" using ne by (cases s) (simp_all add: min_def)
  have "s ! ?i = c" "s ! ?j = c" using c i j nth_mem by blast+
  then show ?thesis by (simp add: lerp_at_def)
qed

lemma quantile_const:
  assumes "xs \<noteq> []" "\<forall>x \<in> set xs. x = c" "0 \<le> q" "q \<le> 1"
  shows "quantile xs q = c"
proof -
  have "sort xs \<noteq> []" using assms(1) by (metis length_sort length_0_conv)
  moreover have "\<forall>x \<in> set (sort xs). x = c" using assms(2) by simp
  moreover have "0 \<le> q * of_nat (length xs - 1)" using assms(3) by simp
  moreover have "q * of_nat (length xs - 1) \<le> of_nat (length (sort xs) - 1)"
    using assms(4) mult_right_mono [of q 1 "of_nat (length xs - 1)"] by simp
  ultimately show ?thesis unfolding quantile_lerp_at by (rule lerp_at_const)
qed

lemma quantile_single: "quantile [x] q = x"
  by (simp add: quantile_def)

text \<open>
  C3, as amended. For every non-empty slice the low threshold is at most the high one,
  and when all prices of the slice are equal both thresholds are that price. (Equal
  thresholds do not make the prices equal: see the example after the theorem.)
\<close>

theorem thresholds_ordered:
  assumes "t \<noteq> []"
  shows "low_thr t \<le> high_thr t \<and>
         ((\<forall>r \<in> set t. price_kwh r = c) \<longrightarrow> low_thr t = c \<and> high_thr t = c)"
proof -
  have ne: "map price_kwh t \<noteq> []" using assms by simp
  have "low_thr t \<le> high_thr t"
    unfolding low_thr_def high_thr_def using ne by (rule quantile_mono) simp_all
  moreover have "low_thr t = c \<and> high_thr t = c" if "\<forall>r \<in> set t. price_kwh r = c"
  proof -
    have "\<forall>x \<in> set (map price_kwh t). x = c" using that by auto
    then show ?thesis unfolding low_thr_def high_thr_def
      using ne by (simp add: quantile_const)
  qed
  ultimately show ?thesis by blast
qed

theorem thresholds_ordered_witness:
  "with_price_kwh flat_day \<noteq> [] \<and>
   map price_kwh (with_price_kwh flat_day) = [1 / 20, 1 / 20] \<and>
   low_thr (with_price_kwh flat_day) \<le> high_thr (with_price_kwh flat_day) \<and>
   low_thr (with_price_kwh flat_day) = 1 / 20 \<and> high_thr (with_price_kwh flat_day) = 1 / 20"
proof -
  have ne: "with_price_kwh flat_day \<noteq> []" by (simp add: with_price_kwh_def flat_day_def)
  have ps: "map price_kwh (with_price_kwh flat_day) = [1 / 20, 1 / 20]"
    by (simp add: with_price_kwh_def flat_day_def)
  have "\<forall>r \<in> set (with_price_kwh flat_day). price_kwh r = 1 / 20"
    by (simp add: with_price_kwh_def flat_day_def)
  with thresholds_ordered [OF ne, of "1 / 20"] ne ps show ?thesis by blast
qed

text \<open>
  C3 as stated fails in one direction: on the day priced 0, 1, 1, 1, 2 EUR/kWh both
  virtual indices, 1.32 and 2.64, fall between ranks that hold the price 1, so the two
  thresholds are equal although the prices are not.
\<close>

theorem thresholds_equal_counterexample:
  "with_price_kwh uneven_day \<noteq> [] \<and>
   map price_kwh (with_price_kwh uneven_day) = [0, 1, 1, 1, 2] \<and>
   low_thr (with_price_kwh uneven_day) = 1 \<and> high_thr (with_price_kwh uneven_day) = 1"
  by (simp add: low_thr_def high_thr_def quantile_def with_price_kwh_def uneven_day_def)

text \<open>
  C10. On a slice of exactly one row both thresholds are that row's price, the price of
  the latest hour and the daily average are that price too, and the recommendation for
  the latest hour and the one for the day's average are both APPLE PIE TIME.
\<close>

theorem single_row_day:
  "low_thr [r] = price_kwh r \<and> high_thr [r] = price_kwh r \<and>
   current_price_kwh [r] = Inr (price_kwh r) \<and> daily_avg_kwh [r] = price_kwh r \<and>
   bake_reco (low_thr [r]) (high_thr [r]) (price_kwh r) = (''APPLE PIE TIME'', ''success'') \<and>
   bake_reco (low_thr [r]) (high_thr [r]) (daily_avg_kwh [r]) = (''APPLE PIE TIME'', ''success'')"
  by (simp add: low_thr_def high_thr_def quantile_single current_price_kwh_def current_row_def
      tail_def daily_avg_kwh_def mean_def bake_reco_def)

section \<open>The ranked tables\<close>

lemma filter_take_prefix: "prefix (filter P (take n xs)) (filter P xs)"
proof -
  have "filter P xs = filter P (take n xs) @ filter P (drop n xs)"
    by (metis append_take_drop_id filter_append)
  then show ?thesis by (simp add: prefix_def)
qed

lemma nsmallest_length: "length (nsmallest n f xs) = min n (length xs)"
  by (simp add: nsmallest_def min.commute)

lemma nlargest_length: "length (nlargest n f xs) = min n (length xs)"
  by (simp add: nlargest_def min.commute)

lemma nsmallest_sorted: "sorted (map f (nsmallest n f xs))"
proof -
  have "sorted (take n (map f (sort_key f xs)))" by (simp add: sorted_wrt_take)
  then show ?thesis by (simp add: nsmallest_def take_map)
qed

lemma nlargest_sorted: "sorted_wrt (\<lambda>a b. a \<ge> b) (map f (nlargest n f xs))"
proof -
  have "sorted (map (\<lambda>r. - f r) (sort_key (\<lambda>r. - f r) xs))" by (rule sorted_sort_key)
  then have "sorted_wrt (\<lambda>a b. f a \<ge> f b) (sort_key (\<lambda>r. - f r) xs)"
    by (simp add: sorted_wrt_map)
  then have "sorted_wrt (\<lambda>a b. f a \<ge> f b) (take n (sort_key (\<lambda>r. - f r) xs))"
    by (rule sorted_wrt_take)
  then show ?thesis by (simp add: nlargest_def sorted_wrt_map)
qed

text \<open>
  Stability: the rows of one price that are selected are the first rows of that price in
  the input, in the input's order.
\<close>

lemma nsmallest_stable:
  "prefix (filter (\<lambda>r. f r = p) (nsmallest n f xs)) (filter (\<lambda>r. f r = p) xs)"
proof -
  have "prefix (filter (\<lambda>r. f r = p) (take n (sort_key f xs)))
          (filter (\<lambda>r. f r = p) (sort_key f xs))"
    by (rule filter_take_prefix)
  then show ?thesis by (simp add: nsmallest_def sort_key_stable)
qed

lemma nlargest_stable:
  "prefix (filter (\<lambda>r. f r = p) (nlargest n f xs)) (filter (\<lambda>r. f r = p) xs)"
proof -
  let ?g = "\<lambda>r. - f r"
  have eq: "(\<lambda>r. f r = p) = (\<lambda>r. ?g r = - p)" by auto
  have "prefix (filter (\<lambda>r. ?g r = - p) (take n (sort_key ?g xs)))
          (filter (\<lambda>r. ?g r = - p) (sort_key ?g xs))"
    by (rule filter_take_prefix)
  then have "prefix (filter (\<lambda>r. ?g r = - p) (take n (sort_key ?g xs)))
          (filter (\<lambda>r. ?g r = - p) xs)"
    by (simp only: sort_key_stable)
  then show ?thesis unfolding nlargest_def eq .
qed

text \<open>
  The prices selected are the \<open>n\<close> smallest, respectively the \<open>n\<close> largest, prices of
  the input: the first \<open>n\<close> of its prices in ascending, respectively descending, order.
\<close>

lemma map_insort_key: "map f (insort_key f x ys) = insort (f x) (map f ys)"
  by (induction ys) simp_all

lemma map_sort_key: "map f (sort_key f xs) = sort (map f xs)"
  by (induction xs) (simp_all add: map_insort_key)

lemma sort_negated: "map uminus (sort (map uminus ys)) = rev (sort (ys :: real list))"
proof -
  let ?zs = "sort (map uminus ys)"
  have m: "mset (rev (map uminus ?zs)) = mset ys"
    by (simp add: multiset.map_comp comp_def)
  have "sorted ?zs" by simp
  then have "sorted_wrt (\<lambda>a b. a \<ge> b) (map uminus ?zs)"
    by (simp add: sorted_wrt_map)
  then have s: "sorted (rev (map uminus ?zs))"
    by (simp add: sorted_wrt_rev)
  have "sort ys = rev (map uminus ?zs)" using m s by (rule properties_for_sort)
  then show ?thesis by simp
qed

lemma nsmallest_values: "map f (nsmallest n f xs) = take n (sort (map f xs))"
proof -
  have "map f (take n (sort_key f xs)) = take n (map f (sort_key f xs))"
    by (rule take_map [symmetric])
  then show ?thesis by (simp only: nsmallest_def map_sort_key)
qed

lemma nlargest_values: "map f (nlargest n f xs) = take n (rev (sort (map f xs)))"
proof -
  let ?g = "\<lambda>r. - f r"
  have "map f (sort_key ?g xs) = map uminus (map ?g (sort_key ?g xs))"
    by (simp add: comp_def)
  also have "\<dots> = map uminus (sort (map uminus (map f xs)))"
    by (simp only: map_sort_key) (simp add: comp_def)
  also have "\<dots> = rev (sort (map f xs))" by (rule sort_negated)
  finally have "take n (map f (sort_key ?g xs)) = take n (rev (sort (map f xs)))" by simp
  then show ?thesis by (simp only: nlargest_def take_map)
qed

text \<open>
  C4. For every slice and every count \<open>n\<close> (so for a non-empty slice and the slider's
  1 to 8), \<open>cheapest\<close> and \<open>priciest\<close> each have \<open>min n (length t)\<close> rows; the prices of
  \<open>cheapest\<close> are the \<open>n\<close> smallest prices of the slice in ascending order and the
  prices of \<open>priciest\<close> the \<open>n\<close> largest in descending order; and in both, the rows of
  any one price are an initial part of the slice's rows of that price, in the slice's
  time order.
\<close>

theorem rank_extremes:
  "length (cheapest n t) = min n (length t) \<and>
   length (priciest n t) = min n (length t) \<and>
   map price_kwh (cheapest n t) = take n (sort (map price_kwh t)) \<and>
   map price_kwh (priciest n t) = take n (rev (sort (map price_kwh t))) \<and>
   sorted (map price_kwh (cheapest n t)) \<and>
   sorted_wrt (\<lambda>a b. a \<ge> b) (map price_kwh (priciest n t)) \<and>
   (\<forall>p. prefix (filter (\<lambda>r. price_kwh r = p) (cheapest n t)) (filter (\<lambda>r. price_kwh r = p) t)) \<and>
   (\<forall>p. prefix (filter (\<lambda>r. price_kwh r = p) (priciest n t)) (filter (\<lambda>r. price_kwh r = p) t))"
  unfolding cheapest_def priciest_def
  by (intro conjI allI nsmallest_length nlargest_length nsmallest_values nlargest_values
      nsmallest_sorted nlargest_sorted nsmallest_stable nlargest_stable)

text \<open>
  On the day priced 0, 1, 1, 1, 2 EUR/kWh with a count of three: the cheapest rows are the
  hour priced 0 and the first two hours priced 1; the priciest are the hour priced 2 and,
  again in time order, the first two hours priced 1.
\<close>

lemma rank_extremes_example:
  "map idx (cheapest 3 (with_price_kwh uneven_day)) =
     [1704067200000000000, 1704070800000000000, 1704074400000000000] \<and>
   map idx (priciest 3 (with_price_kwh uneven_day)) =
     [1704081600000000000, 1704070800000000000, 1704074400000000000]"
  by (simp add: cheapest_def priciest_def nsmallest_def nlargest_def with_price_kwh_def
      uneven_day_def)

section \<open>Loading\<close>

lemma dropna_coerce_set:
  "set (dropna_date (coerce_dates p rs)) =
     {\<lparr>date_cet = t, cells = cells r\<rparr> | r t. r \<in> set rs \<and> p (date_cet r) = Some t}"
  by (induction rs)
    (auto simp: dropna_date_def coerce_dates_def List.map_filter_simps split: option.splits)

lemma dropna_coerce_length:
  "length (dropna_date (coerce_dates p rs)) = length (filter (\<lambda>r. p (date_cet r) \<noteq> None) rs)"
  by (induction rs)
    (auto simp: dropna_date_def coerce_dates_def List.map_filter_simps split: option.splits)

text \<open>
  C6, as amended. After \<open>load_data\<close> the timestamps are in ascending order, equal
  timestamps allowed; the rows are exactly the input rows whose timestamp parses, each
  with its parsed timestamp and its cells, so every row whose timestamp does not parse is
  gone and the number of rows is the number of input rows that parse.
\<close>

theorem load_data_sorted_parsed:
  "sorted (map date_cet (rows (load_data p df))) \<and>
   set (rows (load_data p df)) =
     {\<lparr>date_cet = t, cells = cells r\<rparr> | r t. r \<in> set (rows df) \<and> p (date_cet r) = Some t} \<and>
   length (rows (load_data p df)) = length (filter (\<lambda>r. p (date_cet r) \<noteq> None) (rows df))"
  by (simp add: load_data_def dropna_coerce_set dropna_coerce_length)

text \<open>
  C6 as stated fails on uniqueness: \<open>load_data\<close> removes no duplicate, so a file with
  two rows for the same hour keeps both.
\<close>

theorem load_data_duplicate_counterexample:
  "\<not> distinct (map date_cet (rows (load_data example_to_datetime
      \<lparr>columns = [''netherlands_nl''],
       rows = [\<lparr>date_cet = ''2024-01-01 00:00:00'', cells = [''netherlands_nl'' \<mapsto> 20]\<rparr>,
               \<lparr>date_cet = ''2024-01-01 00:00:00'', cells = [''netherlands_nl'' \<mapsto> 21]\<rparr>]\<rparr>)))"
  by (simp add: load_data_def dropna_date_def coerce_dates_def List.map_filter_simps
      example_to_datetime_def)

section \<open>The day's slice\<close>

lemma today_rows_idx:
  "map idx (List.map_filter
        (\<lambda>r. case cells r c of None \<Rightarrow> None | Some p \<Rightarrow> Some \<lparr>idx = date_cet r, price_mwh = p\<rparr>) rs)
   = map date_cet (filter (\<lambda>r. cells r c \<noteq> None) rs)"
  by (induction rs) (auto simp: List.map_filter_simps split: option.splits)

lemma today_rows_price:
  "map (\<lambda>r. Some (price_mwh r)) (List.map_filter
        (\<lambda>r. case cells r c of None \<Rightarrow> None | Some p \<Rightarrow> Some \<lparr>idx = date_cet r, price_mwh = p\<rparr>)
        (rs :: timestamp row list))
   = map (\<lambda>r. cells r c) (filter (\<lambda>r. cells r c \<noteq> None) rs)"
  by (induction rs) (auto simp: List.map_filter_simps split: option.splits)

text \<open>Line 60 computes the specification's slice, when the market is a column.\<close>

lemma today_valid_rows:
  assumes "country \<in> set (columns ts)"
  shows "\<exists>t. today ts country d = Inr t \<and>
             map idx t = map date_cet (valid_rows ts country d) \<and>
             map (\<lambda>r. Some (price_mwh r)) t = map (\<lambda>r. cells r country) (valid_rows ts country d)"
proof -
  have v: "valid_rows ts country d =
        filter (\<lambda>r. cells r country \<noteq> None) (filter (\<lambda>r. normalize_ts (date_cet r) = d) (rows ts))"
    by (simp add: valid_rows_def conj_commute)
  show ?thesis using assms unfolding v
    by (simp add: today_def today_rows_idx today_rows_price)
qed

lemma gold_ts_sorted: "sorted (map date_cet (rows (gold_ts df)))"
  by (simp add: gold_ts_def)

lemma valid_rows_sorted:
  "sorted (map date_cet (rows ts)) \<Longrightarrow> sorted (map date_cet (valid_rows ts c d))"
  unfolding valid_rows_def by (rule sorted_filter)

lemma valid_rows_date: "r \<in> set (valid_rows ts c d) \<Longrightarrow> normalize_ts (date_cet r) = d"
  by (simp add: valid_rows_def)

text \<open>
  C5. On the loaded and indexed table, for a market that is one of its columns and any
  date: the slice holds exactly the table's rows on that date whose price for the market
  is present, in the table's order, with their timestamps and prices. When there is at
  least one such row the slice is returned, non-empty, ascending in time, every timestamp
  normalizing to the selected date; when there is none (also when every price of the date
  is missing) the run ends with \<open>EmptySliceError\<close>.
\<close>

theorem today_or_stop_slice:
  assumes "country \<in> set (columns df)"
  shows "(valid_rows (gold_ts (load_data p df)) country d \<noteq> [] \<longrightarrow>
           (\<exists>t. today_or_stop (gold_ts (load_data p df)) country d = Inr t \<and> t \<noteq> [] \<and>
                sorted (map idx t) \<and> (\<forall>r \<in> set t. normalize_ts (idx r) = d) \<and>
                map idx t = map date_cet (valid_rows (gold_ts (load_data p df)) country d) \<and>
                map (\<lambda>r. Some (price_mwh r)) t =
                  map (\<lambda>r. cells r country) (valid_rows (gold_ts (load_data p df)) country d))) \<and>
         (valid_rows (gold_ts (load_data p df)) country d = [] \<longrightarrow>
            today_or_stop (gold_ts (load_data p df)) country d = Inl EmptySliceError)"
proof -
  let ?ts = "gold_ts (load_data p df)"
  let ?v = "valid_rows ?ts country d"
  have "country \<in> set (columns ?ts)" using assms by (simp add: gold_ts_def load_data_def)
  then obtain t where t: "today ?ts country d = Inr t" "map idx t = map date_cet ?v"
      "map (\<lambda>r. Some (price_mwh r)) t = map (\<lambda>r. cells r country) ?v"
    using today_valid_rows by blast
  have len: "length t = length ?v" using t(2) by (metis length_map)
  have srt: "sorted (map idx t)" unfolding t(2) using gold_ts_sorted by (rule valid_rows_sorted)
  have "\<forall>x \<in> set (map date_cet ?v). normalize_ts x = d"
    using valid_rows_date by auto
  then have "\<forall>x \<in> set (map idx t). normalize_ts x = d" unfolding t(2) .
  then have dates: "\<forall>r \<in> set t. normalize_ts (idx r) = d" by simp
  have "today_or_stop ?ts country d = Inl EmptySliceError" if "?v = []"
    using that len t(1) by (simp add: today_or_stop_def)
  moreover have "today_or_stop ?ts country d = Inr t \<and> t \<noteq> []" if "?v \<noteq> []"
    using that len t(1) by (auto simp add: today_or_stop_def)
  ultimately show ?thesis using srt dates t(2,3) by auto
qed

text \<open>
  On the example file: the two priced hours of 2024-01-01 come back in time order; for
  2024-01-02, whose only price is missing, the run ends with \<open>EmptySliceError\<close>.
\<close>

theorem today_or_stop_slice_witness:
  "''netherlands_nl'' \<in> set (columns example_frame) \<and>
   valid_rows (gold_ts (load_data example_to_datetime example_frame))
       ''netherlands_nl'' 1704067200000000000 \<noteq> [] \<and>
   valid_rows (gold_ts (load_data example_to_datetime example_frame))
       ''netherlands_nl'' 1704153600000000000 = [] \<and>
   today_or_stop (gold_ts (load_data example_to_datetime example_frame))
       ''netherlands_nl'' 1704067200000000000
     = Inr [\<lparr>idx = 1704067200000000000, price_mwh = 20\<rparr>,
            \<lparr>idx = 1704070800000000000, price_mwh = 45 / 2\<rparr>] \<and>
   today_or_stop (gold_ts (load_data example_to_datetime example_frame))
       ''netherlands_nl'' 1704153600000000000
     = Inl EmptySliceError"
  using today_or_stop_slice [of "''netherlands_nl''" example_frame example_to_datetime
          1704067200000000000]
        today_or_stop_slice [of "''netherlands_nl''" example_frame example_to_datetime
          1704153600000000000]
  by (simp add: example_frame_def example_to_datetime_def today_or_stop_def today_def
      gold_ts_def load_data_def dropna_date_def coerce_dates_def List.map_filter_simps
      normalize_ts_def ns_per_day_def valid_rows_def)

end
